theory Spec2Isabelle
  imports Main "HOL-Library.Word"
begin

section \<open>Request values\<close>

text \<open>
  A request body is a parsed JSON object, listing each key once. Strings are ASCII. A
  number is an integer between \<open>-2^53\<close> and \<open>2^53 - 1\<close>, which a double holds
  exactly and prints in decimal digits.
\<close>

datatype jval =
    JNull
  | JBool bool
  | JNum "54 word"
  | JStr string
  | JArr "jval list"
  | JObj "(string \<times> jval) list"

type_synonym body = "(string \<times> jval) list"

text \<open>JavaScript truthiness; a missing key reads as \<open>undefined\<close>, which is falsy.\<close>

fun truthy :: "jval \<Rightarrow> bool" where
  "truthy JNull = False"
| "truthy (JBool b) = b"
| "truthy (JNum n) = (n \<noteq> 0)"
| "truthy (JStr s) = (s \<noteq> [])"
| "truthy (JArr xs) = True"
| "truthy (JObj kvs) = True"

fun truthy_field :: "jval option \<Rightarrow> bool" where
  "truthy_field None = False"
| "truthy_field (Some v) = truthy v"

fun show_nat :: "nat \<Rightarrow> string" where
  "show_nat n =
     (if n < 10 then [''0123456789'' ! n]
      else show_nat (n div 10) @ [''0123456789'' ! (n mod 10)])"

declare show_nat.simps [simp del]

definition show_int :: "int \<Rightarrow> string" where
  "show_int i = (if i < 0 then CHR ''-'' # show_nat (nat (- i)) else show_nat (nat i))"

fun join :: "string list \<Rightarrow> string" where
  "join [] = []"
| "join [x] = x"
| "join (x # y # ys) = x @ CHR '','' # join (y # ys)"

fun all_some :: "'a option list \<Rightarrow> 'a list option" where
  "all_some [] = Some []"
| "all_some (None # xs) = None"
| "all_some (Some x # xs) = (case all_some xs of None \<Rightarrow> None | Some ys \<Rightarrow> Some (x # ys))"

text \<open>
  \<open>value.toString()\<close>, or \<open>None\<close> where the call throws a TypeError: on
  \<open>null\<close>, and on an object with an own key \<open>toString\<close>, which a JSON value
  never binds to a function. An array joins the strings of its elements, with the empty
  string for \<open>null\<close>.
\<close>

fun to_string :: "jval \<Rightarrow> string option" where
  "to_string JNull = None"
| "to_string (JBool b) = Some (if b then ''true'' else ''false'')"
| "to_string (JNum n) = Some (show_int (sint n))"
| "to_string (JStr s) = Some s"
| "to_string (JArr xs) =
     map_option join (all_some (map (\<lambda>x. if x = JNull then Some [] else to_string x) xs))"
| "to_string (JObj kvs) =
     (if map_of kvs ''toString'' = None then Some ''[object Object]'' else None)"

text \<open>\<open>list.includes(value)\<close> on a list of strings: only a string can be found.\<close>

fun includes_str :: "string list \<Rightarrow> jval option \<Rightarrow> string option" where
  "includes_str xs (Some (JStr x)) = (if x \<in> set xs then Some x else None)"
| "includes_str xs v = None"

definition is_space :: "char \<Rightarrow> bool" where
  "is_space c = (c \<in> set [CHR '' '', CHR 0x09, CHR 0x0A, CHR 0x0B, CHR 0x0C, CHR 0x0D])"

definition trim :: "string \<Rightarrow> string" where
  "trim s = rev (dropWhile is_space (rev (dropWhile is_space s)))"

section \<open>Identifiers\<close>

text \<open>
  An identifier is the string \<open>ObjectId.toString()\<close> gives: 24 hexadecimal digits in
  lower case. That is the form of every reference a document holds, of the keys of the
  collections, and of \<open>req.user.id\<close>. A string of a request names an identifier
  when it is 24 hexadecimal digits in either case; the cast reads it into lower case.
\<close>

type_synonym ident = string

definition is_hex :: "char \<Rightarrow> bool" where
  "is_hex c = (c \<in> set ''0123456789abcdefABCDEF'')"

definition lower_hex :: "char \<Rightarrow> char" where
  "lower_hex c =
     (if c = CHR ''A'' then CHR ''a'' else if c = CHR ''B'' then CHR ''b''
      else if c = CHR ''C'' then CHR ''c'' else if c = CHR ''D'' then CHR ''d''
      else if c = CHR ''E'' then CHR ''e'' else if c = CHR ''F'' then CHR ''f''
      else c)"

definition object_id :: "string \<Rightarrow> ident option" where
  "object_id s = (if length s = 24 \<and> list_all is_hex s then Some (map lower_hex s) else None)"

section \<open>Schema casts of the document store\<close>

text \<open>
  What the store does with a value written to a schema path: the value is cast to the
  type of the path, it is \<open>null\<close>, or the write is refused. A date or a number is
  represented in a body by the number the store reads from the value sent, so a string
  or an array in their place stands for one the cast refuses; the empty string is read
  as \<open>null\<close>.
\<close>

datatype 'a cast = CastError | Null | Cast 'a

fun cast_String :: "jval \<Rightarrow> string cast" where
  "cast_String JNull = Null"
| "cast_String (JStr s) = Cast s"
| "cast_String (JNum n) = Cast (show_int (sint n))"
| "cast_String (JBool b) = Cast (if b then ''true'' else ''false'')"
| "cast_String (JArr xs) = CastError"
| "cast_String (JObj kvs) =
     (case map_of kvs ''_id'' of
        Some (JStr i) \<Rightarrow> (if i \<noteq> [] then Cast i else CastError)
      | _ \<Rightarrow> CastError)"

text \<open>
  The cast of a reference: the identifier named by the string form of the value, or of
  its \<open>_id\<close> when the value has one.
\<close>

definition cast_ObjectId :: "jval \<Rightarrow> ident cast" where
  "cast_ObjectId v =
     (if v = JNull then Null
      else
        case (case v of
                JObj kvs \<Rightarrow>
                  (case map_of kvs ''_id'' of
                     None \<Rightarrow> to_string v
                   | Some i \<Rightarrow> if truthy i then to_string i else to_string v)
              | _ \<Rightarrow> to_string v) of
          None \<Rightarrow> CastError
        | Some s \<Rightarrow> (case object_id s of None \<Rightarrow> CastError | Some i \<Rightarrow> Cast i))"

fun cast_Date :: "jval \<Rightarrow> int cast" where
  "cast_Date JNull = Null"
| "cast_Date (JStr s) = (if s = [] then Null else CastError)"
| "cast_Date (JNum n) =
     (if \<bar>sint n\<bar> \<le> 8640000000000000 then Cast (sint n) else CastError)"
| "cast_Date v = CastError"

fun cast_Number :: "jval \<Rightarrow> int cast" where
  "cast_Number JNull = Null"
| "cast_Number (JStr s) = (if s = [] then Null else CastError)"
| "cast_Number (JNum n) = Cast (sint n)"
| "cast_Number (JBool b) = Cast (if b then 1 else 0)"
| "cast_Number v = CastError"

fun cast_Boolean :: "jval \<Rightarrow> bool cast" where
  "cast_Boolean JNull = Null"
| "cast_Boolean (JBool b) = Cast b"
| "cast_Boolean (JNum n) = (if n = 1 then Cast True else if n = 0 then Cast False else CastError)"
| "cast_Boolean (JStr s) =
     (if s \<in> set [''true'', ''1'', ''yes''] then Cast True
      else if s \<in> set [''false'', ''0'', ''no''] then Cast False
      else CastError)"
| "cast_Boolean v = CastError"

text \<open>
  An array of trimmed strings (\<open>tags\<close>); a value that is no array is taken as the
  array of that value.
\<close>

fun cast_tag :: "jval \<Rightarrow> string option" where
  "cast_tag v = (case cast_String v of Cast s \<Rightarrow> Some (trim s) | _ \<Rightarrow> None)"

fun cast_tags :: "jval \<Rightarrow> string list option" where
  "cast_tags JNull = Some []"
| "cast_tags (JArr xs) = all_some (map cast_tag xs)"
| "cast_tags v = (case cast_tag v of None \<Rightarrow> None | Some s \<Rightarrow> Some [s])"

fun cast_docs :: "(jval \<Rightarrow> 'a option) \<Rightarrow> jval \<Rightarrow> 'a list option" where
  "cast_docs f JNull = Some []"
| "cast_docs f (JArr xs) = all_some (map f xs)"
| "cast_docs f v = (case f v of None \<Rightarrow> None | Some d \<Rightarrow> Some [d])"

section \<open>Data model\<close>

text \<open>The authenticated user of a request: \<open>req.user.id\<close> and \<open>req.user.role\<close>.\<close>

record actor =
  a_id :: ident
  a_role :: string

text \<open>
  Modelled from the spec: the User schema (\<open>models/User\<close>) is not among the
  sources; a user has a name, an email, a global role and an active flag.
\<close>

record user =
  u_name :: string
  u_email :: string
  u_role :: string
  u_isActive :: bool

text \<open>
  An entry of \<open>members\<close>. The schema requires none of its paths, so the store holds
  entries without a user, and a role of \<open>null\<close>.
\<close>

record member =
  m_user :: "ident option"
  m_role :: "string option"
  m_joinedAt :: "int option"

record settings =
  allowMemberTaskCreation :: bool
  allowMemberTaskAssignment :: bool
  defaultTaskPriority :: "string option"

text \<open>
  \<open>p_members\<close> is \<open>None\<close> for a list that is \<open>null\<close>, and holds \<open>None\<close>
  for an entry that is \<open>null\<close>.
\<close>

record project =
  p_name :: string
  p_description :: "string option"
  p_owner :: ident
  p_members :: "member option list option"
  p_startDate :: "int option"
  p_endDate :: "int option"
  p_status :: "string option"
  p_tags :: "string list"
  p_settings :: settings
  p_isArchived :: bool

record comment =
  c_user :: "ident option"
  c_text :: string
  c_createdAt :: "int option"

record attachment =
  fileName :: "string option"
  fileUrl :: "string option"
  uploadedAt :: "int option"

record task =
  t_title :: string
  t_description :: "string option"
  t_status :: string
  t_priority :: "string option"
  t_dueDate :: "int option"
  t_assignee :: "ident option"
  t_createdBy :: ident
  t_project :: ident
  t_tags :: "string list"
  t_comments :: "comment list"
  t_attachments :: "attachment list"
  t_estimatedHours :: "int option"
  t_actualHours :: "int option"
  t_isArchived :: bool

text \<open>
  The three collections, keyed by identifier. The timestamps the store keeps by itself
  (\<open>createdAt\<close>, \<open>updatedAt\<close>) are not part of the records.
\<close>

record store =
  users :: "ident \<rightharpoonup> user"
  projects :: "ident \<rightharpoonup> project"
  tasks :: "ident \<rightharpoonup> task"

text \<open>
  What the document store does outside the part written out here is a parameter of the
  handlers: which document a \<open>findById\<close> selects for a condition that is an array
  or an object (a query, not an identifier), and the result of an update whose keys are
  not all plain top-level paths (update operators, dotted paths, \<open>_id\<close>).
\<close>

record driver =
  query_id :: "jval \<Rightarrow> ident cast"
  project_update :: "body \<Rightarrow> project \<Rightarrow> project option"
  task_update :: "body \<Rightarrow> task \<Rightarrow> task option"

text \<open>
  The outcome of a request that does not succeed, with the message of its JSON envelope.
  A thrown exception is caught by the handler and answered as a server fault.
\<close>

datatype error =
    ValidationErrors "string list"
  | ValidationFailure string
  | Unauthorized string
  | NotFound string
  | ServerFault string

fun http_status :: "error \<Rightarrow> nat" where
  "http_status (ValidationErrors es) = 400"
| "http_status (ValidationFailure m) = 400"
| "http_status (Unauthorized m) = 403"
| "http_status (NotFound m) = 404"
| "http_status (ServerFault m) = 500"

text \<open>
  \<open>Model.findById\<close>. With a string (a URL parameter, or a string of the body) it
  throws a cast error unless the string names an identifier. With \<open>undefined\<close> or
  \<open>null\<close> it finds nothing; a number or a boolean names no identifier.
\<close>

datatype 'a found = Throws | Missing | Found 'a

definition find_param :: "(ident \<rightharpoonup> 'a) \<Rightarrow> string \<Rightarrow> 'a found" where
  "find_param coll raw =
     (case object_id raw of
        None \<Rightarrow> Throws
      | Some i \<Rightarrow> (case coll i of None \<Rightarrow> Missing | Some d \<Rightarrow> Found d))"

fun findById :: "driver \<Rightarrow> (ident \<rightharpoonup> 'a) \<Rightarrow> jval option \<Rightarrow> 'a found" where
  "findById d coll None = Missing"
| "findById d coll (Some JNull) = Missing"
| "findById d coll (Some (JStr raw)) = find_param coll raw"
| "findById d coll (Some (JNum n)) = Throws"
| "findById d coll (Some (JBool b)) = Throws"
| "findById d coll (Some v) =
     (case query_id d v of
        CastError \<Rightarrow> Throws
      | Null \<Rightarrow> Missing
      | Cast i \<Rightarrow> (case coll i of None \<Rightarrow> Missing | Some doc \<Rightarrow> Found doc))"

text \<open>
  A key of an update that names a top-level path of a schema, or no path at all: the
  store writes the one and drops the other.
\<close>

definition plain_key :: "string \<Rightarrow> bool" where
  "plain_key k =
     (k \<noteq> [] \<and> k \<noteq> ''_id'' \<and> CHR ''.'' \<notin> set k \<and> CHR ''$'' \<notin> set (take 1 k))"

section \<open>The task schema\<close>

text \<open>
  Each function gives the value stored at a path of the task schema for a value written
  to it, or \<open>None\<close> when the cast or a validator of the path refuses it.
\<close>

definition task_title :: "jval \<Rightarrow> string option" where
  "task_title v =
     (case cast_String v of
        Cast s \<Rightarrow>
          (let t = trim s in
           if t \<noteq> [] \<and> 3 \<le> length t \<and> length t \<le> 100 then Some t else None)
      | _ \<Rightarrow> None)"

definition task_description :: "jval \<Rightarrow> string option option" where
  "task_description v =
     (case cast_String v of
        Cast s \<Rightarrow> (let t = trim s in if length t \<le> 500 then Some (Some t) else None)
      | Null \<Rightarrow> Some None
      | CastError \<Rightarrow> None)"

definition task_status :: "jval \<Rightarrow> string option" where
  "task_status v =
     (case cast_String v of
        Cast s \<Rightarrow> (if s \<in> set [''todo'', ''inprogress'', ''review'', ''done''] then Some s else None)
      | _ \<Rightarrow> None)"

definition task_priority :: "jval \<Rightarrow> string option option" where
  "task_priority v =
     (case cast_String v of
        Cast s \<Rightarrow> (if s \<in> set [''low'', ''medium'', ''high''] then Some (Some s) else None)
      | Null \<Rightarrow> Some None
      | CastError \<Rightarrow> None)"

definition optional_date :: "jval \<Rightarrow> int option option" where
  "optional_date v =
     (case cast_Date v of Cast d \<Rightarrow> Some (Some d) | Null \<Rightarrow> Some None | CastError \<Rightarrow> None)"

definition optional_ref :: "jval \<Rightarrow> ident option option" where
  "optional_ref v =
     (case cast_ObjectId v of Cast i \<Rightarrow> Some (Some i) | Null \<Rightarrow> Some None | CastError \<Rightarrow> None)"

definition required_ref :: "jval \<Rightarrow> ident option" where
  "required_ref v = (case cast_ObjectId v of Cast i \<Rightarrow> Some i | _ \<Rightarrow> None)"

definition task_hours :: "jval \<Rightarrow> int option option" where
  "task_hours v =
     (case cast_Number v of
        Cast n \<Rightarrow> (if 0 \<le> n then Some (Some n) else None)
      | Null \<Rightarrow> Some None
      | CastError \<Rightarrow> None)"

definition task_isArchived :: "jval \<Rightarrow> bool option" where
  "task_isArchived v = (case cast_Boolean v of Cast b \<Rightarrow> Some b | _ \<Rightarrow> None)"

text \<open>A date path with the default \<open>Date.now\<close>: the default fills a missing key.\<close>

definition date_or_now :: "int \<Rightarrow> jval option \<Rightarrow> int option option" where
  "date_or_now now v = (case v of None \<Rightarrow> Some (Some now) | Some x \<Rightarrow> optional_date x)"

fun cast_comment :: "int \<Rightarrow> jval \<Rightarrow> comment option" where
  "cast_comment now (JObj kvs) =
     (case (case map_of kvs ''user'' of None \<Rightarrow> Some None | Some u \<Rightarrow> optional_ref u,
            case map_of kvs ''text'' of None \<Rightarrow> Null | Some x \<Rightarrow> cast_String x,
            date_or_now now (map_of kvs ''createdAt'')) of
        (Some u, Cast s, Some d) \<Rightarrow>
          (let t = trim s in
           if t \<noteq> [] \<and> length t \<le> 500
           then Some \<lparr>c_user = u, c_text = t, c_createdAt = d\<rparr> else None)
      | _ \<Rightarrow> None)"
| "cast_comment now v = None"

fun cast_attachment :: "int \<Rightarrow> jval \<Rightarrow> attachment option" where
  "cast_attachment now (JObj kvs) =
     (case (case map_of kvs ''fileName'' of None \<Rightarrow> Some None | Some x \<Rightarrow> task_description x,
            case map_of kvs ''fileUrl'' of None \<Rightarrow> Some None | Some x \<Rightarrow> task_description x,
            date_or_now now (map_of kvs ''uploadedAt'')) of
        (Some n, Some u, Some d) \<Rightarrow> Some \<lparr>fileName = n, fileUrl = u, uploadedAt = d\<rparr>
      | _ \<Rightarrow> None)"
| "cast_attachment now v = None"

text \<open>
  One \<open>$set\<close> of an update with \<open>runValidators\<close>: the path named by the key is
  written, a key that names no path of the schema is dropped (strict mode), and a
  refused value fails the whole update. A \<open>null\<close> for \<open>status\<close> is refused here:
  no handler writes one, and \<open>t_status\<close> is the string the handlers compare.
\<close>

definition set_task_path :: "int \<Rightarrow> string \<Rightarrow> jval \<Rightarrow> task \<Rightarrow> task option" where
  "set_task_path now k v t =
     (if k = ''title'' then map_option (\<lambda>x. t\<lparr>t_title := x\<rparr>) (task_title v)
      else if k = ''description'' then map_option (\<lambda>x. t\<lparr>t_description := x\<rparr>) (task_description v)
      else if k = ''status'' then map_option (\<lambda>x. t\<lparr>t_status := x\<rparr>) (task_status v)
      else if k = ''priority'' then map_option (\<lambda>x. t\<lparr>t_priority := x\<rparr>) (task_priority v)
      else if k = ''dueDate'' then map_option (\<lambda>x. t\<lparr>t_dueDate := x\<rparr>) (optional_date v)
      else if k = ''assignee'' then map_option (\<lambda>x. t\<lparr>t_assignee := x\<rparr>) (optional_ref v)
      else if k = ''createdBy'' then map_option (\<lambda>x. t\<lparr>t_createdBy := x\<rparr>) (required_ref v)
      else if k = ''project'' then map_option (\<lambda>x. t\<lparr>t_project := x\<rparr>) (required_ref v)
      else if k = ''tags'' then map_option (\<lambda>x. t\<lparr>t_tags := x\<rparr>) (cast_tags v)
      else if k = ''comments'' then map_option (\<lambda>x. t\<lparr>t_comments := x\<rparr>) (cast_docs (cast_comment now) v)
      else if k = ''attachments'' then map_option (\<lambda>x. t\<lparr>t_attachments := x\<rparr>) (cast_docs (cast_attachment now) v)
      else if k = ''estimatedHours'' then map_option (\<lambda>x. t\<lparr>t_estimatedHours := x\<rparr>) (task_hours v)
      else if k = ''actualHours'' then map_option (\<lambda>x. t\<lparr>t_actualHours := x\<rparr>) (task_hours v)
      else if k = ''isArchived'' then map_option (\<lambda>x. t\<lparr>t_isArchived := x\<rparr>) (task_isArchived v)
      else Some t)"

fun set_task_paths :: "int \<Rightarrow> body \<Rightarrow> task \<Rightarrow> task option" where
  "set_task_paths now [] t = Some t"
| "set_task_paths now ((k, v) # kvs) t =
     (case set_task_path now k v t of None \<Rightarrow> None | Some t' \<Rightarrow> set_task_paths now kvs t')"

text \<open>
  \<open>Task.findByIdAndUpdate(id, updates, {new: true, runValidators: true})\<close>: the
  updated task and the store holding it, or \<open>None\<close> when the call throws or finds
  no task.
\<close>

definition Task_findByIdAndUpdate ::
  "driver \<Rightarrow> store \<Rightarrow> int \<Rightarrow> string \<Rightarrow> body \<Rightarrow> (task \<times> store) option" where
  "Task_findByIdAndUpdate d s now raw updates =
     (case object_id raw of
        None \<Rightarrow> None
      | Some tid \<Rightarrow>
          (case tasks s tid of
             None \<Rightarrow> None
           | Some t \<Rightarrow>
               (case (if list_all (\<lambda>(k, v). plain_key k) updates
                      then set_task_paths now updates t else task_update d updates t) of
                  None \<Rightarrow> None
                | Some t' \<Rightarrow> Some (t', s\<lparr>tasks := (tasks s)(tid \<mapsto> t')\<rparr>))))"

text \<open>
  \<open>Task.create\<close> as \<open>createTask\<close> calls it: the fields of the body, the creator,
  the status \<open>todo\<close>, and the defaults of the schema for the rest. A missing key
  leaves its path without a value.
\<close>

definition Task_create ::
  "jval option \<Rightarrow> jval option \<Rightarrow> jval option \<Rightarrow> jval \<Rightarrow> jval option \<Rightarrow> jval option \<Rightarrow>
   jval option \<Rightarrow> string \<Rightarrow> task option" where
  "Task_create title description project priority dueDate assignee tags createdBy =
     (case (case title of None \<Rightarrow> None | Some x \<Rightarrow> task_title x,
            case description of None \<Rightarrow> Some None | Some x \<Rightarrow> task_description x,
            case project of None \<Rightarrow> None | Some x \<Rightarrow> required_ref x,
            task_priority priority,
            case dueDate of None \<Rightarrow> Some None | Some x \<Rightarrow> optional_date x,
            case assignee of None \<Rightarrow> Some None | Some x \<Rightarrow> optional_ref x,
            case tags of None \<Rightarrow> Some [] | Some x \<Rightarrow> cast_tags x,
            object_id createdBy) of
        (Some ti, Some de, Some pr, Some pri, Some du, Some asg, Some tg, Some cb) \<Rightarrow>
          Some \<lparr>t_title = ti, t_description = de, t_status = ''todo'', t_priority = pri,
                t_dueDate = du, t_assignee = asg, t_createdBy = cb, t_project = pr,
                t_tags = tg, t_comments = [], t_attachments = [], t_estimatedHours = None,
                t_actualHours = Some 0, t_isArchived = False\<rparr>
      | _ \<Rightarrow> None)"

section \<open>The task model's derived field\<close>

definition isOverdue :: "int \<Rightarrow> task \<Rightarrow> bool" where
  "isOverdue now t =
     (case t_dueDate t of
        None \<Rightarrow> False
      | Some due \<Rightarrow> now > due \<and> t_status t \<noteq> ''done'')"

section \<open>Membership tests\<close>

text \<open>
  \<open>project.members.some(m => P(m.user.toString(), m))\<close>, or \<open>None\<close> where the
  call throws a TypeError: the list is \<open>null\<close>, or the search meets an entry that
  is \<open>null\<close> or has no user before it meets an entry that satisfies the test.
\<close>

fun some_member :: "(string \<Rightarrow> member \<Rightarrow> bool) \<Rightarrow> member option list \<Rightarrow> bool option" where
  "some_member P [] = Some False"
| "some_member P (None # ms) = None"
| "some_member P (Some m # ms) =
     (case m_user m of
        None \<Rightarrow> None
      | Some u \<Rightarrow> if P u m then Some True else some_member P ms)"

definition members_some :: "(string \<Rightarrow> member \<Rightarrow> bool) \<Rightarrow> project \<Rightarrow> bool option" where
  "members_some P p = (case p_members p of None \<Rightarrow> None | Some ms \<Rightarrow> some_member P ms)"

text \<open>
  \<open>project.members.filter(m => P(m.user.toString()))\<close>, which calls the test on
  every entry.
\<close>

fun filter_members :: "(string \<Rightarrow> bool) \<Rightarrow> member option list \<Rightarrow> member option list option" where
  "filter_members P [] = Some []"
| "filter_members P (None # ms) = None"
| "filter_members P (Some m # ms) =
     (case m_user m of
        None \<Rightarrow> None
      | Some u \<Rightarrow>
          (case filter_members P ms of
             None \<Rightarrow> None
           | Some r \<Rightarrow> Some (if P u then Some m # r else r)))"

section \<open>Task handlers (taskController)\<close>

text \<open>
  Every handler takes the store and the authenticated user of the request and returns
  its answer with the store it leaves. \<open>errors\<close> is the list
  \<open>validationResult(req)\<close> holds; \<open>newId\<close> is the identifier the store gives the
  created document; \<open>raw\<close> is the \<open>:id\<close> segment of the URL.
\<close>

text \<open>
  The constant \<open>isProjectMember\<close> of \<open>createTask\<close>: the owner test, else the
  search of the members, else the admin test.
\<close>

definition isProjectMember :: "project \<Rightarrow> actor \<Rightarrow> bool option" where
  "isProjectMember projectDoc user =
     (if p_owner projectDoc = a_id user then Some True
      else
        case members_some (\<lambda>u m. u = a_id user) projectDoc of
          None \<Rightarrow> None
        | Some True \<Rightarrow> Some True
        | Some False \<Rightarrow> Some (a_role user = ''admin''))"

definition isAssigneeMember :: "project \<Rightarrow> jval \<Rightarrow> bool option" where
  "isAssigneeMember projectDoc assignee =
     (case to_string assignee of
        None \<Rightarrow> None
      | Some a \<Rightarrow>
          if a = p_owner projectDoc then Some True
          else members_some (\<lambda>u m. u = a) projectDoc)"

definition createTask ::
  "driver \<Rightarrow> store \<Rightarrow> string list \<Rightarrow> actor \<Rightarrow> body \<Rightarrow> ident \<Rightarrow> (error + task) \<times> store" where
  "createTask d s errors user body newId =
     (if errors \<noteq> [] then (Inl (ValidationErrors errors), s)
      else
        let title = map_of body ''title''; description = map_of body ''description'';
            project = map_of body ''project''; priority = map_of body ''priority'';
            dueDate = map_of body ''dueDate''; assignee = map_of body ''assignee'';
            tags = map_of body ''tags''
        in
        case findById d (projects s) project of
          Throws \<Rightarrow> (Inl (ServerFault ''Server error''), s)
        | Missing \<Rightarrow> (Inl (NotFound ''Project not found''), s)
        | Found projectDoc \<Rightarrow>
            (case isProjectMember projectDoc user of
               None \<Rightarrow> (Inl (ServerFault ''Server error''), s)
             | Some False \<Rightarrow>
                 (Inl (Unauthorized ''Not authorized to create tasks in this project''), s)
             | Some True \<Rightarrow>
                 (case (case assignee of
                          None \<Rightarrow> Some True
                        | Some a \<Rightarrow>
                            if \<not> truthy a then Some True
                            else
                              (case isAssigneeMember projectDoc a of
                                 None \<Rightarrow> None
                               | Some member \<Rightarrow> Some (member \<or> a_role user = ''admin''))) of
                    None \<Rightarrow> (Inl (ServerFault ''Server error''), s)
                  | Some False \<Rightarrow>
                      (Inl (ValidationFailure ''Assignee must be a project member''), s)
                  | Some True \<Rightarrow>
                      (case Task_create title description project
                              (case priority of
                                 None \<Rightarrow> JStr ''medium''
                               | Some pr \<Rightarrow> if truthy pr then pr else JStr ''medium'')
                              dueDate assignee tags (a_id user) of
                         None \<Rightarrow> (Inl (ServerFault ''Server error''), s)
                       | Some task \<Rightarrow> (Inr task, s\<lparr>tasks := (tasks s)(newId \<mapsto> task)\<rparr>)))))"

definition updateTask ::
  "driver \<Rightarrow> store \<Rightarrow> int \<Rightarrow> actor \<Rightarrow> string \<Rightarrow> body \<Rightarrow> (error + task) \<times> store" where
  "updateTask d s now user raw body =
     (case find_param (tasks s) raw of
        Throws \<Rightarrow> (Inl (ServerFault ''Server error''), s)
      | Missing \<Rightarrow> (Inl (NotFound ''Task not found''), s)
      | Found task \<Rightarrow>
          (case projects s (t_project task) of
             None \<Rightarrow> (Inl (ServerFault ''Server error''), s)
           | Some project \<Rightarrow>
               let isProjectOwner = (p_owner project = a_id user);
                   isTaskAssignee = (t_assignee task = Some (a_id user));
                   isAdmin = (a_role user = ''admin'');
                   allowedUpdates = [''title'', ''description'', ''priority'', ''dueDate'', ''tags'']
               in
               if truthy_field (map_of body ''status'') \<and>
                  \<not> isProjectOwner \<and> \<not> isTaskAssignee \<and> \<not> isAdmin
               then (Inl (Unauthorized ''Not authorized to change task status''), s)
               else
                 let allowedUpdates =
                       (if truthy_field (map_of body ''status'')
                        then allowedUpdates @ [''status''] else allowedUpdates)
                 in
                 if truthy_field (map_of body ''assignee'') \<and> \<not> isProjectOwner \<and> \<not> isAdmin
                 then (Inl (Unauthorized ''Not authorized to change assignee''), s)
                 else
                   let allowedUpdates =
                         (if truthy_field (map_of body ''assignee'')
                          then allowedUpdates @ [''assignee''] else allowedUpdates);
                       updates = filter (\<lambda>(key, v). key \<in> set allowedUpdates) body
                   in
                   (case Task_findByIdAndUpdate d s now raw updates of
                      None \<Rightarrow> (Inl (ServerFault ''Server error''), s)
                    | Some (task', s') \<Rightarrow> (Inr task', s'))))"

definition deleteTask :: "store \<Rightarrow> actor \<Rightarrow> string \<Rightarrow> (error + unit) \<times> store" where
  "deleteTask s user raw =
     (case object_id raw of
        None \<Rightarrow> (Inl (ServerFault ''Server error''), s)
      | Some tid \<Rightarrow>
          (case tasks s tid of
             None \<Rightarrow> (Inl (NotFound ''Task not found''), s)
           | Some task \<Rightarrow>
               (case projects s (t_project task) of
                  None \<Rightarrow> (Inl (ServerFault ''Server error''), s)
                | Some project \<Rightarrow>
                    if p_owner project \<noteq> a_id user \<and> a_role user \<noteq> ''admin''
                    then (Inl (Unauthorized ''Not authorized to delete this task''), s)
                    else (Inr (), s\<lparr>tasks := (tasks s)(tid := None)\<rparr>))))"

definition updateTaskStatus :: "store \<Rightarrow> actor \<Rightarrow> string \<Rightarrow> body \<Rightarrow> (error + task) \<times> store" where
  "updateTaskStatus s user raw body =
     (case includes_str [''todo'', ''inprogress'', ''review'', ''done''] (map_of body ''status'') of
        None \<Rightarrow> (Inl (ValidationFailure ''Invalid status''), s)
      | Some status \<Rightarrow>
          (case object_id raw of
             None \<Rightarrow> (Inl (ServerFault ''Server error''), s)
           | Some tid \<Rightarrow>
               (case tasks s tid of
                  None \<Rightarrow> (Inl (NotFound ''Task not found''), s)
                | Some task \<Rightarrow>
                    (case projects s (t_project task) of
                       None \<Rightarrow> (Inl (ServerFault ''Server error''), s)
                     | Some project \<Rightarrow>
                         let isTaskAssignee = (t_assignee task = Some (a_id user));
                             isProjectOwner = (p_owner project = a_id user);
                             isAdmin = (a_role user = ''admin'')
                         in
                         if \<not> isTaskAssignee \<and> \<not> isProjectOwner \<and> \<not> isAdmin
                         then (Inl (Unauthorized ''Not authorized to update task status''), s)
                         else
                           let task' = task\<lparr>t_status := status\<rparr>
                           in (Inr task', s\<lparr>tasks := (tasks s)(tid \<mapsto> task')\<rparr>)))))"

section \<open>Permission middleware\<close>

text \<open>
  The permission middleware of the repository. No route mounts it: the task routes run
  the handlers above behind the authentication middleware alone. A middleware answers
  with an error, or lets the request pass (\<open>None\<close>, the call of \<open>next\<close>).
\<close>

definition or_else :: "jval option \<Rightarrow> jval option \<Rightarrow> jval option" where
  "or_else a b = (if truthy_field a then a else b)"

definition canManageTasks ::
  "driver \<Rightarrow> store \<Rightarrow> actor \<Rightarrow> string \<Rightarrow> string option \<Rightarrow> body \<Rightarrow> error option" where
  "canManageTasks d s user method params_projectId body =
     (let projectId = or_else (map_option JStr params_projectId) (map_of body ''project'') in
      if \<not> truthy_field projectId then Some (ValidationFailure ''Project ID is required'')
      else
        case findById d (projects s) projectId of
          Throws \<Rightarrow> Some (ServerFault ''Server error'')
        | Missing \<Rightarrow> Some (NotFound ''Project not found'')
        | Found project \<Rightarrow>
            let userRole = a_role user;
                isOwner = (p_owner project = a_id user)
            in
            (case members_some (\<lambda>u m. u = a_id user \<and> m_role m = Some ''manager'') project of
               None \<Rightarrow> Some (ServerFault ''Server error'')
             | Some isManager \<Rightarrow>
                 if userRole = ''admin'' \<or> isOwner then None
                 else if isManager then None
                 else if method = ''POST'' \<and> allowMemberTaskCreation (p_settings project)
                 then
                   (case members_some (\<lambda>u m. u = a_id user) project of
                      None \<Rightarrow> Some (ServerFault ''Server error'')
                    | Some True \<Rightarrow> None
                    | Some False \<Rightarrow>
                        Some (Unauthorized ''Not authorized to manage tasks in this project''))
                 else Some (Unauthorized ''Not authorized to manage tasks in this project'')))"

definition canUpdateTaskStatus ::
  "store \<Rightarrow> actor \<Rightarrow> string option \<Rightarrow> string option \<Rightarrow> error option" where
  "canUpdateTaskStatus s user params_taskId params_id =
     (case or_else (map_option JStr params_taskId) (map_option JStr params_id) of
        Some (JStr taskId) \<Rightarrow>
          (if taskId = [] then Some (ValidationFailure ''Task ID is required'')
           else
             case find_param (tasks s) taskId of
               Throws \<Rightarrow> Some (ServerFault ''Server error'')
             | Missing \<Rightarrow> Some (NotFound ''Task not found'')
             | Found task \<Rightarrow>
                 (case projects s (t_project task) of
                    None \<Rightarrow> Some (NotFound ''Project not found'')
                  | Some project \<Rightarrow>
                      let userRole = a_role user;
                          isTaskAssignee = (t_assignee task = Some (a_id user));
                          isProjectOwner = (p_owner project = a_id user)
                      in
                      (case members_some (\<lambda>u m. u = a_id user \<and> m_role m = Some ''manager'')
                              project of
                         None \<Rightarrow> Some (ServerFault ''Server error'')
                       | Some isProjectManager \<Rightarrow>
                           if userRole = ''admin'' \<or> isProjectOwner \<or> isProjectManager \<or>
                              isTaskAssignee
                           then None
                           else Some (Unauthorized ''Not authorized to update task status''))))
      | _ \<Rightarrow> Some (ValidationFailure ''Task ID is required''))"

definition canDeleteTask ::
  "store \<Rightarrow> actor \<Rightarrow> string option \<Rightarrow> string option \<Rightarrow> error option" where
  "canDeleteTask s user params_taskId params_id =
     (case or_else (map_option JStr params_taskId) (map_option JStr params_id) of
        Some (JStr taskId) \<Rightarrow>
          (if taskId = [] then Some (ValidationFailure ''Task ID is required'')
           else
             case find_param (tasks s) taskId of
               Throws \<Rightarrow> Some (ServerFault ''Server error'')
             | Missing \<Rightarrow> Some (NotFound ''Task not found'')
             | Found task \<Rightarrow>
                 (case projects s (t_project task) of
                    None \<Rightarrow> Some (NotFound ''Project not found'')
                  | Some project \<Rightarrow>
                      let userRole = a_role user;
                          isProjectOwner = (p_owner project = a_id user);
                          isTaskCreator = (t_createdBy task = a_id user)
                      in
                      if userRole = ''admin'' \<or> isProjectOwner \<or> isTaskCreator
                      then None
                      else Some (Unauthorized ''Not authorized to delete this task'')))
      | _ \<Rightarrow> Some (ValidationFailure ''Task ID is required''))"

section \<open>The project schema\<close>

definition project_name :: "jval \<Rightarrow> string option" where
  "project_name v =
     (case cast_String v of
        Cast s \<Rightarrow>
          (let t = trim s in
           if t \<noteq> [] \<and> 3 \<le> length t \<and> length t \<le> 100 then Some t else None)
      | _ \<Rightarrow> None)"

definition project_description :: "jval \<Rightarrow> string option option" where
  "project_description v =
     (case cast_String v of
        Cast s \<Rightarrow> (let t = trim s in if length t \<le> 500 then Some (Some t) else None)
      | Null \<Rightarrow> Some None
      | CastError \<Rightarrow> None)"

definition project_status :: "jval \<Rightarrow> string option option" where
  "project_status v =
     (case cast_String v of
        Cast s \<Rightarrow>
          (if s \<in> set [''planning'', ''active'', ''on-hold'', ''completed'', ''cancelled'']
           then Some (Some s) else None)
      | Null \<Rightarrow> Some None
      | CastError \<Rightarrow> None)"

definition member_role :: "jval option \<Rightarrow> string option option" where
  "member_role v =
     (case v of
        None \<Rightarrow> Some (Some ''member'')
      | Some x \<Rightarrow>
          (case cast_String x of
             Cast r \<Rightarrow> (if r \<in> set [''manager'', ''member''] then Some (Some r) else None)
           | Null \<Rightarrow> Some None
           | CastError \<Rightarrow> None))"

text \<open>
  An entry of \<open>members\<close> made of the three values given: the role defaults to
  \<open>member\<close> and the joining time to the time of the write, where the key is missing.
\<close>

definition cast_member_fields :: "int \<Rightarrow> jval option \<Rightarrow> jval option \<Rightarrow> jval option \<Rightarrow> member option" where
  "cast_member_fields now user role joinedAt =
     (case (case user of None \<Rightarrow> Some None | Some u \<Rightarrow> optional_ref u,
            member_role role, date_or_now now joinedAt) of
        (Some u, Some r, Some j) \<Rightarrow> Some \<lparr>m_user = u, m_role = r, m_joinedAt = j\<rparr>
      | _ \<Rightarrow> None)"

fun cast_member :: "int \<Rightarrow> jval \<Rightarrow> member option option" where
  "cast_member now (JObj kvs) =
     map_option Some
       (cast_member_fields now (map_of kvs ''user'') (map_of kvs ''role'') (map_of kvs ''joinedAt''))"
| "cast_member now JNull = Some None"
| "cast_member now v = None"

fun cast_members :: "int \<Rightarrow> jval \<Rightarrow> member option list option option" where
  "cast_members now JNull = Some None"
| "cast_members now (JArr xs) = map_option Some (all_some (map (cast_member now) xs))"
| "cast_members now v = map_option (\<lambda>m. Some [m]) (cast_member now v)"

definition flag_or :: "bool \<Rightarrow> jval option \<Rightarrow> bool option" where
  "flag_or dflt v =
     (case v of
        None \<Rightarrow> Some dflt
      | Some x \<Rightarrow> (case cast_Boolean x of Cast b \<Rightarrow> Some b | Null \<Rightarrow> Some False | CastError \<Rightarrow> None))"

definition default_settings :: settings where
  "default_settings =
     \<lparr>allowMemberTaskCreation = True, allowMemberTaskAssignment = False,
      defaultTaskPriority = Some ''medium''\<rparr>"

text \<open>
  The nested \<open>settings\<close>: a key the object lacks takes the default of the schema; a
  flag of \<open>null\<close> is kept as \<open>False\<close>, which is how the code reads it.
\<close>

fun cast_settings :: "jval \<Rightarrow> settings option" where
  "cast_settings (JObj kvs) =
     (case (flag_or True (map_of kvs ''allowMemberTaskCreation''),
            flag_or False (map_of kvs ''allowMemberTaskAssignment''),
            case map_of kvs ''defaultTaskPriority'' of
              None \<Rightarrow> Some (Some ''medium'')
            | Some x \<Rightarrow> task_priority x) of
        (Some c, Some a, Some p) \<Rightarrow>
          Some \<lparr>allowMemberTaskCreation = c, allowMemberTaskAssignment = a,
                defaultTaskPriority = p\<rparr>
      | _ \<Rightarrow> None)"
| "cast_settings JNull = Some default_settings"
| "cast_settings v = None"

definition set_project_path :: "int \<Rightarrow> string \<Rightarrow> jval \<Rightarrow> project \<Rightarrow> project option" where
  "set_project_path now k v p =
     (if k = ''name'' then map_option (\<lambda>x. p\<lparr>p_name := x\<rparr>) (project_name v)
      else if k = ''description'' then map_option (\<lambda>x. p\<lparr>p_description := x\<rparr>) (project_description v)
      else if k = ''owner'' then map_option (\<lambda>x. p\<lparr>p_owner := x\<rparr>) (required_ref v)
      else if k = ''members'' then map_option (\<lambda>x. p\<lparr>p_members := x\<rparr>) (cast_members now v)
      else if k = ''startDate'' then map_option (\<lambda>x. p\<lparr>p_startDate := x\<rparr>) (optional_date v)
      else if k = ''endDate'' then map_option (\<lambda>x. p\<lparr>p_endDate := x\<rparr>) (optional_date v)
      else if k = ''status'' then map_option (\<lambda>x. p\<lparr>p_status := x\<rparr>) (project_status v)
      else if k = ''tags'' then map_option (\<lambda>x. p\<lparr>p_tags := x\<rparr>) (cast_tags v)
      else if k = ''settings'' then map_option (\<lambda>x. p\<lparr>p_settings := x\<rparr>) (cast_settings v)
      else if k = ''isArchived'' then map_option (\<lambda>x. p\<lparr>p_isArchived := x\<rparr>) (task_isArchived v)
      else Some p)"

fun set_project_paths :: "int \<Rightarrow> body \<Rightarrow> project \<Rightarrow> project option" where
  "set_project_paths now [] p = Some p"
| "set_project_paths now ((k, v) # kvs) p =
     (case set_project_path now k v p of None \<Rightarrow> None | Some p' \<Rightarrow> set_project_paths now kvs p')"

definition Project_findByIdAndUpdate ::
  "driver \<Rightarrow> store \<Rightarrow> int \<Rightarrow> string \<Rightarrow> body \<Rightarrow> (project \<times> store) option" where
  "Project_findByIdAndUpdate d s now raw updates =
     (case object_id raw of
        None \<Rightarrow> None
      | Some pid \<Rightarrow>
          (case projects s pid of
             None \<Rightarrow> None
           | Some p \<Rightarrow>
               (case (if list_all (\<lambda>(k, v). plain_key k) updates
                      then set_project_paths now updates p else project_update d updates p) of
                  None \<Rightarrow> None
                | Some p' \<Rightarrow> Some (p', s\<lparr>projects := (projects s)(pid \<mapsto> p')\<rparr>))))"

definition Project_create ::
  "jval option \<Rightarrow> jval option \<Rightarrow> string \<Rightarrow> jval option \<Rightarrow> jval option \<Rightarrow> jval option \<Rightarrow> project option" where
  "Project_create name description owner startDate endDate tags =
     (case (case name of None \<Rightarrow> None | Some x \<Rightarrow> project_name x,
            case description of None \<Rightarrow> Some None | Some x \<Rightarrow> project_description x,
            object_id owner,
            case startDate of None \<Rightarrow> Some None | Some x \<Rightarrow> optional_date x,
            case endDate of None \<Rightarrow> Some None | Some x \<Rightarrow> optional_date x,
            case tags of None \<Rightarrow> Some [] | Some x \<Rightarrow> cast_tags x) of
        (Some n, Some de, Some ow, Some sd, Some ed, Some tg) \<Rightarrow>
          Some \<lparr>p_name = n, p_description = de, p_owner = ow, p_members = Some [],
                p_startDate = sd, p_endDate = ed, p_status = Some ''active'', p_tags = tg,
                p_settings = default_settings, p_isArchived = False\<rparr>
      | _ \<Rightarrow> None)"

section \<open>Project handlers (projectController)\<close>

definition createProject :: "store \<Rightarrow> actor \<Rightarrow> body \<Rightarrow> ident \<Rightarrow> (error + project) \<times> store" where
  "createProject s user body newId =
     (case Project_create (map_of body ''name'') (map_of body ''description'') (a_id user)
             (map_of body ''startDate'') (map_of body ''endDate'') (map_of body ''tags'') of
        None \<Rightarrow> (Inl (ServerFault ''Server error''), s)
      | Some project \<Rightarrow> (Inr project, s\<lparr>projects := (projects s)(newId \<mapsto> project)\<rparr>))"

definition updateProject ::
  "driver \<Rightarrow> store \<Rightarrow> int \<Rightarrow> actor \<Rightarrow> string \<Rightarrow> body \<Rightarrow> (error + project) \<times> store" where
  "updateProject d s now user raw body =
     (case find_param (projects s) raw of
        Throws \<Rightarrow> (Inl (ServerFault ''Server error''), s)
      | Missing \<Rightarrow> (Inl (NotFound ''Project not found''), s)
      | Found project \<Rightarrow>
          if p_owner project \<noteq> a_id user \<and> a_role user \<noteq> ''admin''
          then (Inl (Unauthorized ''Not authorized to update this project''), s)
          else
            let updates = filter (\<lambda>(key, v). key \<noteq> ''owner'') body
            in
            (case Project_findByIdAndUpdate d s now raw updates of
               None \<Rightarrow> (Inl (ServerFault ''Server error''), s)
             | Some (project', s') \<Rightarrow> (Inr project', s')))"

definition addMember ::
  "driver \<Rightarrow> store \<Rightarrow> int \<Rightarrow> actor \<Rightarrow> string \<Rightarrow> body \<Rightarrow> (error + member option list) \<times> store" where
  "addMember d s now user raw body =
     (let userId = map_of body ''userId'';
          role = (case map_of body ''role'' of None \<Rightarrow> JStr ''member'' | Some r \<Rightarrow> r)
      in
      case object_id raw of
        None \<Rightarrow> (Inl (ServerFault ''Server error''), s)
      | Some pid \<Rightarrow>
          (case projects s pid of
             None \<Rightarrow> (Inl (NotFound ''Project not found''), s)
           | Some project \<Rightarrow>
               if p_owner project \<noteq> a_id user \<and> a_role user \<noteq> ''admin''
               then (Inl (Unauthorized ''Not authorized to add members''), s)
               else
                 (case findById d (users s) userId of
                    Throws \<Rightarrow> (Inl (ServerFault ''Server error''), s)
                  | Missing \<Rightarrow> (Inl (NotFound ''User not found''), s)
                  | Found u \<Rightarrow>
                      (case members_some (\<lambda>u m. Some (JStr u) = userId) project of
                         None \<Rightarrow> (Inl (ServerFault ''Server error''), s)
                       | Some found \<Rightarrow>
                           let isAlreadyMember =
                                 (found \<or> Some (JStr (p_owner project)) = userId)
                           in
                           if isAlreadyMember
                           then (Inl (ValidationFailure ''User is already a project member''), s)
                           else
                             (case (p_members project,
                                    cast_member_fields now userId (Some role) None) of
                                (Some ms, Some m) \<Rightarrow>
                                  let members' = ms @ [Some m]
                                  in (Inr members',
                                      s\<lparr>projects :=
                                          (projects s)(pid \<mapsto> project\<lparr>p_members := Some members'\<rparr>)\<rparr>)
                              | _ \<Rightarrow> (Inl (ServerFault ''Server error''), s))))))"

definition removeMember :: "store \<Rightarrow> actor \<Rightarrow> string \<Rightarrow> string \<Rightarrow> (error + unit) \<times> store" where
  "removeMember s user raw memberId =
     (case object_id raw of
        None \<Rightarrow> (Inl (ServerFault ''Server error''), s)
      | Some pid \<Rightarrow>
          (case projects s pid of
             None \<Rightarrow> (Inl (NotFound ''Project not found''), s)
           | Some project \<Rightarrow>
               if p_owner project \<noteq> a_id user \<and> a_role user \<noteq> ''admin''
               then (Inl (Unauthorized ''Not authorized to remove members''), s)
               else if p_owner project = memberId
               then (Inl (ValidationFailure ''Cannot remove project owner''), s)
               else
                 (case (case p_members project of
                          None \<Rightarrow> None
                        | Some ms \<Rightarrow> filter_members (\<lambda>u. u \<noteq> memberId) ms) of
                    None \<Rightarrow> (Inl (ServerFault ''Server error''), s)
                  | Some members' \<Rightarrow>
                      (Inr (),
                       s\<lparr>projects :=
                           (projects s)(pid \<mapsto> project\<lparr>p_members := Some members'\<rparr>)\<rparr>))))"

section \<open>User handlers (userController)\<close>

text \<open>
  \<open>raw\<close> is the \<open>:id\<close> segment of the URL: \<open>User.findById\<close> casts it to an
  identifier, and the guard of the own account compares it with \<open>req.user.id\<close> as it
  is written.
\<close>

definition updateUserRole :: "store \<Rightarrow> actor \<Rightarrow> string \<Rightarrow> body \<Rightarrow> (error + user) \<times> store" where
  "updateUserRole s actor raw body =
     (if a_role actor \<noteq> ''admin'' then (Inl (Unauthorized ''Admin access required''), s)
      else
        case includes_str [''admin'', ''manager'', ''member''] (map_of body ''role'') of
          None \<Rightarrow> (Inl (ValidationFailure ''Invalid role''), s)
        | Some role \<Rightarrow>
            (case object_id raw of
               None \<Rightarrow> (Inl (ServerFault ''Server error''), s)
             | Some uid \<Rightarrow>
                 (case users s uid of
                    None \<Rightarrow> (Inl (NotFound ''User not found''), s)
                  | Some u \<Rightarrow>
                      if a_id actor = raw
                      then (Inl (ValidationFailure ''Cannot change your own role''), s)
                      else
                        let u' = u\<lparr>u_role := role\<rparr>
                        in (Inr u', s\<lparr>users := (users s)(uid \<mapsto> u')\<rparr>))))"

definition updateUserStatus :: "store \<Rightarrow> actor \<Rightarrow> string \<Rightarrow> body \<Rightarrow> (error + user) \<times> store" where
  "updateUserStatus s actor raw body =
     (if a_role actor \<noteq> ''admin'' then (Inl (Unauthorized ''Admin access required''), s)
      else
        case map_of body ''isActive'' of
          Some (JBool isActive) \<Rightarrow>
            (case object_id raw of
               None \<Rightarrow> (Inl (ServerFault ''Server error''), s)
             | Some uid \<Rightarrow>
                 (case users s uid of
                    None \<Rightarrow> (Inl (NotFound ''User not found''), s)
                  | Some u \<Rightarrow>
                      if a_id actor = raw \<and> \<not> isActive
                      then (Inl (ValidationFailure ''Cannot deactivate your own account''), s)
                      else
                        let u' = u\<lparr>u_isActive := isActive\<rparr>
                        in (Inr u', s\<lparr>users := (users s)(uid \<mapsto> u')\<rparr>)))
        | _ \<Rightarrow> (Inl (ValidationFailure ''isActive must be a boolean''), s))"

text \<open>
  \<open>deleteUser\<close> removes the projects the user owns with their tasks, takes the user
  out of every other project's members, clears the user as assignee, and deletes the
  user.
\<close>

definition owned_by :: "store \<Rightarrow> ident \<Rightarrow> ident \<Rightarrow> bool" where
  "owned_by s uid pid = (case projects s pid of None \<Rightarrow> False | Some p \<Rightarrow> p_owner p = uid)"

definition pull_member :: "ident \<Rightarrow> member option list \<Rightarrow> member option list" where
  "pull_member uid ms =
     filter (\<lambda>e. case e of None \<Rightarrow> True | Some m \<Rightarrow> m_user m \<noteq> Some uid) ms"

definition deleteUser :: "store \<Rightarrow> actor \<Rightarrow> string \<Rightarrow> (error + unit) \<times> store" where
  "deleteUser s actor raw =
     (if a_role actor \<noteq> ''admin'' then (Inl (Unauthorized ''Admin access required''), s)
      else
        case object_id raw of
          None \<Rightarrow> (Inl (ServerFault ''Server error''), s)
        | Some uid \<Rightarrow>
            (case users s uid of
               None \<Rightarrow> (Inl (NotFound ''User not found''), s)
             | Some u \<Rightarrow>
                 if a_id actor = raw
                 then (Inl (ValidationFailure ''Cannot delete your own account''), s)
                 else
                   (Inr (),
                    \<lparr>users = (users s)(uid := None),
                     projects =
                       (\<lambda>pid. case projects s pid of
                          None \<Rightarrow> None
                        | Some p \<Rightarrow>
                            if p_owner p = uid then None
                            else Some (p\<lparr>p_members := map_option (pull_member uid) (p_members p)\<rparr>)),
                     tasks =
                       (\<lambda>tid. case tasks s tid of
                          None \<Rightarrow> None
                        | Some t \<Rightarrow>
                            if owned_by s uid (t_project t) then None
                            else if t_assignee t = Some uid then Some (t\<lparr>t_assignee := None\<rparr>)
                            else Some t)\<rparr>)))"

section \<open>The membership invariant and an example store\<close>

text \<open>The users of the entries of a member list, in order.\<close>

definition entry_users :: "member option list \<Rightarrow> ident list" where
  "entry_users ms =
     concat (map (\<lambda>e. case e of
                         None \<Rightarrow> []
                       | Some m \<Rightarrow> (case m_user m of None \<Rightarrow> [] | Some u \<Rightarrow> [u])) ms)"

definition member_users :: "project \<Rightarrow> ident list" where
  "member_users p = (case p_members p of None \<Rightarrow> [] | Some ms \<Rightarrow> entry_users ms)"

text \<open>The owner of a project is not among its members, and no user is a member twice.\<close>

definition members_ok :: "project \<Rightarrow> bool" where
  "members_ok p = (p_owner p \<notin> set (member_users p) \<and> distinct (member_users p))"

text \<open>The member list is there and every entry of it has a user.\<close>

fun has_user :: "member option \<Rightarrow> bool" where
  "has_user None = False"
| "has_user (Some m) = (m_user m \<noteq> None)"

definition members_readable :: "project \<Rightarrow> bool" where
  "members_readable p = (case p_members p of None \<Rightarrow> False | Some ms \<Rightarrow> list_all has_user ms)"

text \<open>
  Project \<open>P1\<close> is owned by \<open>U1\<close>; \<open>U2\<close> is a plain member and \<open>U3\<close> a
  manager of it, and members may not create tasks. Task \<open>T1\<close> of \<open>P1\<close> was created
  by \<open>U2\<close> and is assigned to \<open>U4\<close>. \<open>A1\<close> is a global admin. \<open>U9\<close> and
  \<open>T2\<close> are identifiers of no stored document.
\<close>

definition U1 :: ident where "U1 = ''aaaaaaaaaaaaaaaaaaaaaa01''"

definition U2 :: ident where "U2 = ''aaaaaaaaaaaaaaaaaaaaaa02''"

definition U3 :: ident where "U3 = ''aaaaaaaaaaaaaaaaaaaaaa03''"

definition U4 :: ident where "U4 = ''aaaaaaaaaaaaaaaaaaaaaa04''"

definition U9 :: ident where "U9 = ''aaaaaaaaaaaaaaaaaaaaaa09''"

definition A1 :: ident where "A1 = ''dddddddddddddddddddddd01''"

definition P1 :: ident where "P1 = ''bbbbbbbbbbbbbbbbbbbbbb01''"

definition T1 :: ident where "T1 = ''cccccccccccccccccccccc01''"

definition T2 :: ident where "T2 = ''cccccccccccccccccccccc02''"

definition example_project :: project where
  "example_project =
     \<lparr>p_name = ''Website'', p_description = None, p_owner = U1,
      p_members =
        Some [Some \<lparr>m_user = Some U2, m_role = Some ''member'', m_joinedAt = Some 1\<rparr>,
              Some \<lparr>m_user = Some U3, m_role = Some ''manager'', m_joinedAt = Some 2\<rparr>],
      p_startDate = None, p_endDate = None, p_status = Some ''active'', p_tags = [],
      p_settings = \<lparr>allowMemberTaskCreation = False, allowMemberTaskAssignment = False,
                    defaultTaskPriority = Some ''medium''\<rparr>,
      p_isArchived = False\<rparr>"

definition example_task :: task where
  "example_task =
     \<lparr>t_title = ''Write docs'', t_description = None, t_status = ''review'',
      t_priority = Some ''medium'', t_dueDate = Some 100, t_assignee = Some U4,
      t_createdBy = U2, t_project = P1, t_tags = [], t_comments = [],
      t_attachments = [], t_estimatedHours = None, t_actualHours = Some 0,
      t_isArchived = False\<rparr>"

definition admin_user :: user where
  "admin_user =
     \<lparr>u_name = ''Root'', u_email = ''root@example.com'', u_role = ''admin'', u_isActive = True\<rparr>"

definition example_store :: store where
  "example_store =
     \<lparr>users =
        [U1 \<mapsto> \<lparr>u_name = ''Ann'', u_email = ''ann@example.com'', u_role = ''member'', u_isActive = True\<rparr>,
         U2 \<mapsto> \<lparr>u_name = ''Bob'', u_email = ''bob@example.com'', u_role = ''member'', u_isActive = True\<rparr>,
         U3 \<mapsto> \<lparr>u_name = ''Cy'', u_email = ''cy@example.com'', u_role = ''member'', u_isActive = True\<rparr>,
         U4 \<mapsto> \<lparr>u_name = ''Di'', u_email = ''di@example.com'', u_role = ''member'', u_isActive = True\<rparr>,
         A1 \<mapsto> admin_user],
      projects = [P1 \<mapsto> example_project],
      tasks = [T1 \<mapsto> example_task]\<rparr>"

definition owner_U1 :: actor where
  "owner_U1 = \<lparr>a_id = U1, a_role = ''member''\<rparr>"

definition member_U2 :: actor where
  "member_U2 = \<lparr>a_id = U2, a_role = ''member''\<rparr>"

definition manager_U3 :: actor where
  "manager_U3 = \<lparr>a_id = U3, a_role = ''member''\<rparr>"

definition admin_A1 :: actor where
  "admin_A1 = \<lparr>a_id = A1, a_role = ''admin''\<rparr>"

text \<open>A driver that refuses whatever is left to it.\<close>

definition refusing :: driver where
  "refusing =
     \<lparr>query_id = (\<lambda>v. CastError), project_update = (\<lambda>b p. None), task_update = (\<lambda>b t. None)\<rparr>"

text \<open>The task a request with the title \<open>Fix login\<close> for \<open>P1\<close> creates.\<close>

definition created_task :: "ident \<Rightarrow> ident option \<Rightarrow> task" where
  "created_task creator assignee =
     \<lparr>t_title = ''Fix login'', t_description = None, t_status = ''todo'',
      t_priority = Some ''medium'', t_dueDate = None, t_assignee = assignee,
      t_createdBy = creator, t_project = P1, t_tags = [], t_comments = [],
      t_attachments = [], t_estimatedHours = None, t_actualHours = Some 0,
      t_isArchived = False\<rparr>"

section \<open>Facts about the store operations\<close>

lemmas id_defs = U1_def U2_def U3_def U4_def U9_def A1_def P1_def T1_def T2_def

lemmas example_defs = example_store_def example_project_def example_task_def admin_user_def
  owner_U1_def member_U2_def manager_U3_def admin_A1_def created_task_def refusing_def id_defs

lemmas cast_defs = object_id_def is_hex_def lower_hex_def cast_ObjectId_def find_param_def

lemmas schema_defs = Task_create_def task_title_def task_description_def
  required_ref_def task_priority_def optional_date_def optional_ref_def task_status_def
  trim_def is_space_def cast_defs

lemmas member_defs = members_some_def isProjectMember_def isAssigneeMember_def

text \<open>
  The keys \<open>updateTask\<close> lets through are plain paths, and a write to one of them
  leaves the other paths of the task as they were.
\<close>

lemma plain_key_allowed:
  "k \<in> set [''title'', ''description'', ''priority'', ''dueDate'', ''tags'', ''status'', ''assignee'']
   \<Longrightarrow> plain_key k"
  by (auto simp add: plain_key_def)

lemma plain_filter:
  assumes "set allowed \<subseteq> set [''title'', ''description'', ''priority'', ''dueDate'', ''tags'', ''status'', ''assignee'']"
  shows "list_all (\<lambda>(k, v). plain_key k) (filter (\<lambda>(key, v). key \<in> set allowed) body)"
proof -
  have "plain_key k" if "k \<in> set allowed" for k
    using that assms plain_key_allowed by blast
  then show ?thesis by (auto simp add: list_all_iff)
qed

lemma set_task_path_frame:
  assumes "k \<in> set [''title'', ''description'', ''priority'', ''dueDate'', ''tags'', ''status'', ''assignee'']"
    and "set_task_path now k v t = Some t'"
  shows "t_createdBy t' = t_createdBy t \<and> t_project t' = t_project t \<and>
         t_comments t' = t_comments t \<and> t_attachments t' = t_attachments t \<and>
         t_estimatedHours t' = t_estimatedHours t \<and> t_actualHours t' = t_actualHours t \<and>
         t_isArchived t' = t_isArchived t"
  using assms by (auto simp add: set_task_path_def)

lemma set_task_paths_frame:
  assumes "set allowed \<subseteq> set [''title'', ''description'', ''priority'', ''dueDate'', ''tags'', ''status'', ''assignee'']"
    and "set_task_paths now (filter (\<lambda>(key, v). key \<in> set allowed) body) t = Some t'"
  shows "t_createdBy t' = t_createdBy t \<and> t_project t' = t_project t \<and>
         t_comments t' = t_comments t \<and> t_attachments t' = t_attachments t \<and>
         t_estimatedHours t' = t_estimatedHours t \<and> t_actualHours t' = t_actualHours t \<and>
         t_isArchived t' = t_isArchived t"
  using assms(2)
proof (induction body arbitrary: t)
  case Nil
  then show ?case by simp
next
  case (Cons kv body)
  obtain k v where kv: "kv = (k, v)" by (cases kv)
  show ?case
  proof (cases "k \<in> set allowed")
    case False
    with Cons kv show ?thesis by simp
  next
    case True
    with Cons.prems kv obtain t1 where
      t1: "set_task_path now k v t = Some t1" and
      rest: "set_task_paths now (filter (\<lambda>(key, v). key \<in> set allowed) body) t1 = Some t'"
      by (auto split: option.splits)
    from True assms(1)
    have "k \<in> set [''title'', ''description'', ''priority'', ''dueDate'', ''tags'', ''status'', ''assignee'']"
      by blast
    from set_task_path_frame [OF this t1] Cons.IH [OF rest] show ?thesis by simp
  qed
qed

lemma Task_findByIdAndUpdate_frame:
  assumes "object_id raw = Some tid" and "tasks s tid = Some t"
    and "set allowed \<subseteq> set [''title'', ''description'', ''priority'', ''dueDate'', ''tags'', ''status'', ''assignee'']"
    and "Task_findByIdAndUpdate d s now raw (filter (\<lambda>(key, v). key \<in> set allowed) body) = Some (t', s')"
  shows "s' = s\<lparr>tasks := (tasks s)(tid \<mapsto> t')\<rparr> \<and>
         t_createdBy t' = t_createdBy t \<and> t_project t' = t_project t \<and>
         t_comments t' = t_comments t \<and> t_attachments t' = t_attachments t \<and>
         t_estimatedHours t' = t_estimatedHours t \<and> t_actualHours t' = t_actualHours t \<and>
         t_isArchived t' = t_isArchived t"
proof -
  from assms(1,2,4) plain_filter [OF assms(3), of body]
  have upd: "set_task_paths now (filter (\<lambda>(key, v). key \<in> set allowed) body) t = Some t'"
    and s': "s' = s\<lparr>tasks := (tasks s)(tid \<mapsto> t')\<rparr>"
    by (auto simp add: Task_findByIdAndUpdate_def split: option.splits)
  from set_task_paths_frame [OF assms(3) upd] s' show ?thesis by simp
qed

text \<open>
  \<open>updateTask\<close> on a stored task either fails and leaves the store, or answers with
  the result of one store update whose keys are among the seven.
\<close>

lemma updateTask_outcomes:
  assumes "object_id raw = Some tid" and "tasks s tid = Some t"
  shows "(\<exists>e. updateTask d s now user raw body = (Inl e, s)) \<or>
         (\<exists>allowed t' s'.
            set allowed \<subseteq> set [''title'', ''description'', ''priority'', ''dueDate'', ''tags'', ''status'', ''assignee''] \<and>
            Task_findByIdAndUpdate d s now raw (filter (\<lambda>(key, v). key \<in> set allowed) body) = Some (t', s') \<and>
            updateTask d s now user raw body = (Inr t', s'))"
proof (cases "projects s (t_project t)")
  case None
  with assms show ?thesis by (simp add: updateTask_def find_param_def)
next
  case (Some p)
  let ?a0 = "[''title'', ''description'', ''priority'', ''dueDate'', ''tags'']"
  let ?a1 = "if truthy_field (map_of body ''status'') then ?a0 @ [''status''] else ?a0"
  let ?a2 = "if truthy_field (map_of body ''assignee'') then ?a1 @ [''assignee''] else ?a1"
  have sub: "set ?a2 \<subseteq> set [''title'', ''description'', ''priority'', ''dueDate'', ''tags'', ''status'', ''assignee'']"
    by simp
  show ?thesis
  proof (cases "Task_findByIdAndUpdate d s now raw (filter (\<lambda>(key, v). key \<in> set ?a2) body)")
    case None
    with assms Some show ?thesis by (simp add: updateTask_def find_param_def Let_def)
  next
    case (Some r)
    obtain t' s' where r: "r = (t', s')" by (cases r)
    show ?thesis
    proof (cases "\<exists>e. updateTask d s now user raw body = (Inl e, s)")
      case True
      then show ?thesis by blast
    next
      case False
      with assms \<open>projects s (t_project t) = Some p\<close> Some r
      have "updateTask d s now user raw body = (Inr t', s')"
        by (simp add: updateTask_def find_param_def Let_def split: if_splits)
      with sub Some r show ?thesis by blast
    qed
  qed
qed

text \<open>
  The search of the members: it gives \<open>False\<close> exactly on a list that is there,
  whose entries all have users, none of which satisfies the test.
\<close>

lemma some_member_False:
  "some_member P ms = Some False \<longleftrightarrow>
     list_all has_user ms \<and> (\<forall>u m. Some m \<in> set ms \<and> m_user m = Some u \<longrightarrow> \<not> P u m)"
proof (induction ms)
  case Nil
  show ?case by simp
next
  case (Cons e ms)
  show ?case
  proof (cases e)
    case None
    then show ?thesis by simp
  next
    case (Some m)
    with Cons show ?thesis by (cases "m_user m") auto
  qed
qed



lemma entry_users_iff:
  "x \<in> set (entry_users ms) \<longleftrightarrow> (\<exists>m. Some m \<in> set ms \<and> m_user m = Some x)"
proof (induction ms)
  case Nil
  show ?case by (simp add: entry_users_def)
next
  case (Cons e ms)
  have "entry_users (e # ms) =
          (case e of None \<Rightarrow> [] | Some m \<Rightarrow> (case m_user m of None \<Rightarrow> [] | Some u \<Rightarrow> [u])) @ entry_users ms"
    by (simp add: entry_users_def)
  with Cons show ?case by (auto split: option.splits)
qed

lemma members_some_eq_False:
  "members_some (\<lambda>u m. u = x) p = Some False \<longleftrightarrow> members_readable p \<and> x \<notin> set (member_users p)"
  by (auto simp add: members_some_def members_readable_def member_users_def some_member_False
        entry_users_iff split: option.splits)



lemma entry_users_append:
  "entry_users (ms @ [Some m]) = entry_users ms @ (case m_user m of None \<Rightarrow> [] | Some u \<Rightarrow> [u])"
  by (simp add: entry_users_def)

lemma filter_members_users:
  "filter_members P ms = Some ms' \<Longrightarrow> entry_users ms' = filter P (entry_users ms)"
proof (induction ms arbitrary: ms')
  case Nil
  then show ?case by (simp add: entry_users_def)
next
  case (Cons e ms)
  then obtain m u r where e: "e = Some m" and u: "m_user m = Some u"
    and r: "filter_members P ms = Some r" and ms': "ms' = (if P u then Some m # r else r)"
    by (cases e) (auto split: option.splits)
  have "entry_users (Some m # xs) = u # entry_users xs" for xs
    using u by (simp add: entry_users_def)
  with Cons.IH [OF r] e ms' show ?case by simp
qed

lemma cast_member_fields_user:
  assumes "object_id i = Some i"
    and "cast_member_fields now (Some (JStr i)) role j = Some m"
  shows "m_user m = Some i"
  using assms
  by (auto simp add: cast_member_fields_def optional_ref_def cast_ObjectId_def
        split: option.splits cast.splits)

text \<open>
  For the task the URL segment names, \<open>updateTask\<close> leaves the paths outside the
  seven, every other task, the projects and the users.
\<close>

lemma updateTask_frame_named:
  assumes "object_id raw = Some tid" and "tasks s tid = Some t"
    and "updateTask d s now user raw body = (r, s')"
  shows "\<exists>t'. tasks s' tid = Some t' \<and>
           t_project t' = t_project t \<and> t_createdBy t' = t_createdBy t \<and>
           t_comments t' = t_comments t \<and> t_attachments t' = t_attachments t \<and>
           t_estimatedHours t' = t_estimatedHours t \<and> t_actualHours t' = t_actualHours t \<and>
           t_isArchived t' = t_isArchived t \<and>
           (\<forall>i. i \<noteq> tid \<longrightarrow> tasks s' i = tasks s i) \<and>
           projects s' = projects s \<and> users s' = users s"
proof -
  from updateTask_outcomes [OF assms(1,2), of d now user body]
  show ?thesis
  proof
    assume "\<exists>e. updateTask d s now user raw body = (Inl e, s)"
    with assms show ?thesis by auto
  next
    assume "\<exists>allowed t' s'.
              set allowed \<subseteq> set [''title'', ''description'', ''priority'', ''dueDate'', ''tags'', ''status'', ''assignee''] \<and>
              Task_findByIdAndUpdate d s now raw (filter (\<lambda>(key, v). key \<in> set allowed) body) = Some (t', s') \<and>
              updateTask d s now user raw body = (Inr t', s')"
    then obtain allowed t' s1 where
      sub: "set allowed \<subseteq> set [''title'', ''description'', ''priority'', ''dueDate'', ''tags'', ''status'', ''assignee'']" and
      upd: "Task_findByIdAndUpdate d s now raw (filter (\<lambda>(key, v). key \<in> set allowed) body) = Some (t', s1)" and
      res: "updateTask d s now user raw body = (Inr t', s1)"
      by blast
    from res assms(3) have s1: "s1 = s'" by simp
    from Task_findByIdAndUpdate_frame [OF assms(1,2) sub upd] s1
    show ?thesis by auto
  qed
qed

section \<open>What the handlers decide\<close>

text \<open>
  With a valid status, a stored task and its project, \<open>updateTaskStatus\<close> succeeds
  exactly for the assignee, the project owner and a global admin; \<open>deleteTask\<close>
  exactly for the project owner and a global admin.
\<close>

lemma updateTaskStatus_allowed_iff:
  assumes "includes_str [''todo'', ''inprogress'', ''review'', ''done''] (map_of body ''status'') = Some st"
    and "object_id raw = Some tid" and "tasks s tid = Some t"
    and "projects s (t_project t) = Some p"
  shows "(\<exists>t' s'. updateTaskStatus s user raw body = (Inr t', s')) \<longleftrightarrow>
         (t_assignee t = Some (a_id user) \<or> p_owner p = a_id user \<or> a_role user = ''admin'')"
  using assms by (auto simp add: updateTaskStatus_def Let_def)

lemma deleteTask_allowed_iff:
  assumes "object_id raw = Some tid" and "tasks s tid = Some t"
    and "projects s (t_project t) = Some p"
  shows "(\<exists>s'. deleteTask s user raw = (Inr (), s')) \<longleftrightarrow>
         (p_owner p = a_id user \<or> a_role user = ''admin'')"
  using assms by (auto simp add: deleteTask_def)

text \<open>
  For a user whom \<open>createTask\<close> takes as a member of the project, a request without
  an assignee goes on to \<open>Task.create\<close>: the settings of the project play no part.
\<close>

lemma createTask_by_member:
  assumes "findById d (projects s) (map_of body ''project'') = Found p"
    and "isProjectMember p user = Some True"
    and "\<not> truthy_field (map_of body ''assignee'')"
  shows "createTask d s [] user body newId =
           (case Task_create (map_of body ''title'') (map_of body ''description'')
                   (map_of body ''project'')
                   (case map_of body ''priority'' of
                      None \<Rightarrow> JStr ''medium''
                    | Some pr \<Rightarrow> if truthy pr then pr else JStr ''medium'')
                   (map_of body ''dueDate'') (map_of body ''assignee'') (map_of body ''tags'')
                   (a_id user) of
              None \<Rightarrow> (Inl (ServerFault ''Server error''), s)
            | Some task \<Rightarrow> (Inr task, s\<lparr>tasks := (tasks s)(newId \<mapsto> task)\<rparr>))"
  using assms by (cases "map_of body ''assignee''") (simp_all add: createTask_def Let_def)

text \<open>
  Where the URL spells the identifier as \<open>req.user.id\<close> and the stored owner have
  it, the guards hold: the owner is not removed, and the own account is not changed.
\<close>

lemma removeMember_owner_exact:
  assumes "object_id raw = Some pid" and "projects s pid = Some p"
  shows "removeMember s user raw (p_owner p) =
           (Inl (if p_owner p \<noteq> a_id user \<and> a_role user \<noteq> ''admin''
                 then Unauthorized ''Not authorized to remove members''
                 else ValidationFailure ''Cannot remove project owner''), s)"
  using assms by (simp add: removeMember_def)

lemma self_protection_exact:
  assumes "a_id actor = raw"
  shows "(\<exists>e. updateUserRole s actor raw body = (Inl e, s)) \<and>
         (map_of body' ''isActive'' = Some (JBool False) \<longrightarrow>
            (\<exists>e. updateUserStatus s actor raw body' = (Inl e, s))) \<and>
         (\<exists>e. deleteUser s actor raw = (Inl e, s))"
  using assms
  by (auto simp add: updateUserRole_def updateUserStatus_def deleteUser_def split: option.splits)

text \<open>
  \<open>createProject\<close> and \<open>removeMember\<close> keep the owner out of the members and the
  members free of duplicates; \<open>addMember\<close> does for a user identifier given in lower
  case. Given in upper case, the identifier of the owner passes the test
  \<open>isAlreadyMember\<close> and the owner joins the members.
\<close>

lemma createProject_members_ok:
  assumes "createProject s user body newId = (Inr p, s')"
  shows "projects s' newId = Some p \<and> object_id (a_id user) = Some (p_owner p) \<and> members_ok p"
  using assms
  by (auto simp add: createProject_def Project_create_def members_ok_def member_users_def
        entry_users_def split: option.splits)

lemma addMember_members_ok:
  assumes "object_id raw = Some pid" and "projects s pid = Some p" and "members_ok p"
    and "map_of body ''userId'' = Some (JStr i)" and "object_id i = Some i"
    and "addMember d s now user raw body = (r, s')"
  shows "\<exists>p'. projects s' pid = Some p' \<and> p_owner p' = p_owner p \<and> members_ok p'"
proof (cases r)
  case (Inl e)
  with assms have "s' = s"
    by (auto simp add: addMember_def Let_def
          split: if_splits found.splits option.splits bool.splits)
  with assms show ?thesis by simp
next
  case (Inr res)
  with assms obtain ms m where
    ms: "p_members p = Some ms" and
    fresh: "members_some (\<lambda>u m. Some (JStr u) = Some (JStr i)) p = Some False"
           "p_owner p \<noteq> i" and
    m: "cast_member_fields now (Some (JStr i))
          (Some (case map_of body ''role'' of None \<Rightarrow> JStr ''member'' | Some r \<Rightarrow> r)) None = Some m" and
    s': "s' = s\<lparr>projects := (projects s)(pid \<mapsto> p\<lparr>p_members := Some (ms @ [Some m])\<rparr>)\<rparr>"
    by (auto simp add: addMember_def Let_def
          split: if_splits found.splits option.splits bool.splits)
  from fresh(1) have "i \<notin> set (member_users p)"
    using members_some_eq_False [of i p] by simp
  moreover from cast_member_fields_user [OF assms(5) m] have "m_user m = Some i" .
  ultimately have "members_ok (p\<lparr>p_members := Some (ms @ [Some m])\<rparr>)"
    using assms(3) ms fresh(2)
    by (auto simp add: members_ok_def member_users_def entry_users_append)
  with s' show ?thesis by simp
qed

lemma removeMember_members_ok:
  assumes "object_id raw = Some pid" and "projects s pid = Some p" and "members_ok p"
    and "removeMember s user raw memberId = (r, s')"
  shows "\<exists>p'. projects s' pid = Some p' \<and> p_owner p' = p_owner p \<and> members_ok p'"
proof (cases r)
  case (Inl e)
  with assms have "s' = s"
    by (auto simp add: removeMember_def split: if_splits option.splits)
  with assms show ?thesis by simp
next
  case (Inr u)
  with assms obtain ms ms' where
    ms: "p_members p = Some ms" and
    f: "filter_members (\<lambda>u. u \<noteq> memberId) ms = Some ms'" and
    s': "s' = s\<lparr>projects := (projects s)(pid \<mapsto> p\<lparr>p_members := Some ms'\<rparr>)\<rparr>"
    by (auto simp add: removeMember_def split: if_splits option.splits)
  from filter_members_users [OF f] assms(3) ms
  have "members_ok (p\<lparr>p_members := Some ms'\<rparr>)"
    by (auto simp add: members_ok_def member_users_def)
  with s' show ?thesis by simp
qed

lemma addMember_owner_other_spelling:
  "map_option member_users
     (projects (snd (addMember d example_store 5 owner_U1 P1
        [(''userId'', JStr ''AAAAAAAAAAAAAAAAAAAAAA01'')])) P1) = Some [U2, U3, U1]"
  by (simp add: addMember_def cast_member_fields_def member_role_def date_or_now_def
        optional_ref_def member_users_def entry_users_def Let_def example_defs cast_defs member_defs)

section \<open>The claims\<close>

text \<open>
  C1. A task-creation request by a plain member of a project (neither its owner nor a
  global admin) succeeds only when \<open>allowMemberTaskCreation\<close> is set. The handler
  does not read the setting: in \<open>P1\<close>, where it is off, the plain member \<open>U2\<close>
  creates a task. \<open>canManageTasks\<close>, the middleware that reads the setting, answers
  the same request with 403, and no route runs it.
\<close>

theorem createTask_plain_member_setting_off:
  "\<not> allowMemberTaskCreation (p_settings example_project) \<and>
   fst (createTask d example_store [] member_U2
          [(''title'', JStr ''Fix login''), (''project'', JStr P1)] T2) =
     Inr (created_task U2 None) \<and>
   tasks (snd (createTask d example_store [] member_U2
          [(''title'', JStr ''Fix login''), (''project'', JStr P1)] T2)) T2 =
     Some (created_task U2 None) \<and>
   canManageTasks d example_store member_U2 ''POST'' None
          [(''title'', JStr ''Fix login''), (''project'', JStr P1)] =
     Some (Unauthorized ''Not authorized to manage tasks in this project'')"
  by (simp add: createTask_def canManageTasks_def or_else_def example_defs schema_defs member_defs)

text \<open>
  C2. A status change is allowed for the assignee, the project owner, a manager of the
  project and a global admin. Both handlers refuse the manager \<open>U3\<close> of \<open>P1\<close>, who
  is not the assignee of \<open>T1\<close>; \<open>canUpdateTaskStatus\<close>, which no route runs, lets
  the same request pass.
\<close>

theorem status_change_by_project_manager:
  "updateTaskStatus example_store manager_U3 T1 [(''status'', JStr ''done'')] =
     (Inl (Unauthorized ''Not authorized to update task status''), example_store) \<and>
   updateTask d example_store 5 manager_U3 T1 [(''status'', JStr ''done'')] =
     (Inl (Unauthorized ''Not authorized to change task status''), example_store) \<and>
   canUpdateTaskStatus example_store manager_U3 None (Some T1) = None"
  by (simp add: updateTaskStatus_def updateTask_def canUpdateTaskStatus_def or_else_def
        example_defs cast_defs member_defs)

text \<open>
  C3. A task can be deleted by the owner of its project, by its creator and by a global
  admin. \<open>deleteTask\<close> refuses \<open>U2\<close>, the creator of \<open>T1\<close>, and leaves the store;
  \<open>canDeleteTask\<close>, which no route runs, lets the same request pass.
\<close>

theorem deleteTask_by_creator:
  "t_createdBy example_task = U2 \<and>
   deleteTask example_store member_U2 T1 =
     (Inl (Unauthorized ''Not authorized to delete this task''), example_store) \<and>
   canDeleteTask example_store member_U2 None (Some T1) = None"
  by (simp add: deleteTask_def canDeleteTask_def or_else_def example_defs cast_defs)




text \<open>
  An assignee with an own key \<open>toString\<close> makes the check throw: the owner of
  \<open>P1\<close> gets 500. And \<open>updateTask\<close> has no check of the new assignee at all: the
  owner of \<open>P1\<close> assigns \<open>T1\<close> to \<open>U9\<close>.
\<close>

lemma createTask_throwing_assignee_example:
  "createTask d example_store [] owner_U1
     [(''title'', JStr ''Fix login''), (''project'', JStr P1),
      (''assignee'', JObj [(''toString'', JNum 1)])] T2 =
     (Inl (ServerFault ''Server error''), example_store)"
  by (simp add: createTask_def example_defs cast_defs member_defs)

lemma updateTask_outside_assignee_example:
  "fst (updateTask d example_store 5 owner_U1 T1 [(''assignee'', JStr U9)]) =
     Inr (example_task\<lparr>t_assignee := Some U9\<rparr>)"
  by (simp add: updateTask_def Task_findByIdAndUpdate_def set_task_path_def plain_key_def
        example_defs schema_defs)

text \<open>
  C5. Every operation on a project keeps its owner out of its members and its members
  free of duplicates. \<open>updateProject\<close> removes only the key \<open>owner\<close> from the body
  and writes the rest: a body with the key \<open>members\<close> replaces the list, here by one
  that holds the owner \<open>U1\<close> and holds \<open>U2\<close> twice.
\<close>

theorem updateProject_members_overwrite:
  "members_ok example_project \<and>
   map_option (\<lambda>p. (p_owner p, member_users p, members_ok p))
     (projects (snd (updateProject d example_store 5 owner_U1 P1
        [(''members'', JArr [JObj [(''user'', JStr U1)], JObj [(''user'', JStr U2)],
                              JObj [(''user'', JStr U2)]])])) P1) =
     Some (U1, [U1, U2, U2], False)"
  by (simp add: updateProject_def Project_findByIdAndUpdate_def set_project_path_def
        cast_member_fields_def member_role_def date_or_now_def optional_ref_def plain_key_def
        members_ok_def member_users_def entry_users_def example_defs cast_defs)

text \<open>
  C6. A \<open>removeMember\<close> request that names the owner of the project fails for every
  user. The handler compares the stored owner with the URL segment as strings: the
  identifier of the owner \<open>U1\<close> written in upper case names the owner and is not
  recognised, and the request of the owner is answered as a success. The members stay
  as they were.
\<close>

theorem removeMember_owner_other_spelling:
  "p_owner example_project = U1 \<and>
   object_id ''AAAAAAAAAAAAAAAAAAAAAA01'' = Some U1 \<and>
   fst (removeMember example_store owner_U1 P1 ''AAAAAAAAAAAAAAAAAAAAAA01'') = Inr () \<and>
   projects (snd (removeMember example_store owner_U1 P1 ''AAAAAAAAAAAAAAAAAAAAAA01'')) P1 =
     Some example_project"
  by (simp add: removeMember_def example_defs cast_defs)

text \<open>
  C7. A user acting on the own account, a global admin included, cannot change the own
  role, deactivate the own account or delete it. The handlers find the user by the
  identifier the URL segment names and guard the own account by comparing the segment
  with \<open>req.user.id\<close> as strings: with the own identifier written in upper case, the
  admin \<open>A1\<close> changes the own role, deactivates the own account, and deletes it.
\<close>

theorem own_account_other_spelling:
  "a_id admin_A1 = A1 \<and>
   object_id ''DDDDDDDDDDDDDDDDDDDDDD01'' = Some A1 \<and>
   users example_store A1 = Some admin_user \<and>
   updateUserRole example_store admin_A1 ''DDDDDDDDDDDDDDDDDDDDDD01'' [(''role'', JStr ''member'')] =
     (Inr (admin_user\<lparr>u_role := ''member''\<rparr>),
      example_store\<lparr>users := (users example_store)(A1 \<mapsto> admin_user\<lparr>u_role := ''member''\<rparr>)\<rparr>) \<and>
   updateUserStatus example_store admin_A1 ''DDDDDDDDDDDDDDDDDDDDDD01'' [(''isActive'', JBool False)] =
     (Inr (admin_user\<lparr>u_isActive := False\<rparr>),
      example_store\<lparr>users := (users example_store)(A1 \<mapsto> admin_user\<lparr>u_isActive := False\<rparr>)\<rparr>) \<and>
   fst (deleteUser example_store admin_A1 ''DDDDDDDDDDDDDDDDDDDDDD01'') = Inr () \<and>
   users (snd (deleteUser example_store admin_A1 ''DDDDDDDDDDDDDDDDDDDDDD01'')) A1 = None"
  by (simp add: updateUserRole_def updateUserStatus_def deleteUser_def Let_def example_defs cast_defs)

text \<open>
  C8. Whatever the body holds, \<open>updateTask\<close> leaves every path of the task other than
  title, description, priority, dueDate, tags, status and assignee as it was, its
  project and its creator among them; it leaves every other task, the projects and the
  users. \<open>raw\<close> is the URL segment of the request, which names the task in either
  case of its hexadecimal digits, or names none.
\<close>

theorem updateTask_frame:
  assumes "tasks s tid = Some t"
    and "updateTask d s now user raw body = (r, s')"
  shows "\<exists>t'. tasks s' tid = Some t' \<and>
           t_project t' = t_project t \<and> t_createdBy t' = t_createdBy t \<and>
           t_comments t' = t_comments t \<and> t_attachments t' = t_attachments t \<and>
           t_estimatedHours t' = t_estimatedHours t \<and> t_actualHours t' = t_actualHours t \<and>
           t_isArchived t' = t_isArchived t \<and>
           (\<forall>i. object_id raw \<noteq> Some i \<longrightarrow> tasks s' i = tasks s i) \<and>
           projects s' = projects s \<and> users s' = users s"
proof (cases "object_id raw")
  case None
  with assms have "s' = s" by (simp add: updateTask_def find_param_def)
  with assms(1) show ?thesis by simp
next
  case (Some i)
  show ?thesis
  proof (cases "tasks s i")
    case None
    with Some assms have "s' = s" by (simp add: updateTask_def find_param_def)
    with assms(1) show ?thesis by simp
  next
    case (Some ti)
    from updateTask_frame_named [OF \<open>object_id raw = Some i\<close> Some assms(2)]
    obtain ti' where named: "tasks s' i = Some ti'"
      "t_project ti' = t_project ti" "t_createdBy ti' = t_createdBy ti"
      "t_comments ti' = t_comments ti" "t_attachments ti' = t_attachments ti"
      "t_estimatedHours ti' = t_estimatedHours ti" "t_actualHours ti' = t_actualHours ti"
      "t_isArchived ti' = t_isArchived ti"
      and rest: "\<forall>k. k \<noteq> i \<longrightarrow> tasks s' k = tasks s k"
        "projects s' = projects s" "users s' = users s"
      by blast
    show ?thesis
    proof (cases "tid = i")
      case True
      with assms(1) Some named rest \<open>object_id raw = Some i\<close> show ?thesis by auto
    next
      case False
      with assms(1) rest \<open>object_id raw = Some i\<close> show ?thesis by auto
    qed
  qed
qed

theorem updateTask_frame_witness:
  "object_id T1 = Some T1 \<and>
   tasks example_store T1 = Some example_task \<and>
   updateTask refusing example_store 5 owner_U1 T1
     [(''title'', JStr ''Write the docs''), (''project'', JStr U9), (''createdBy'', JStr U1)] =
     (Inr (example_task\<lparr>t_title := ''Write the docs''\<rparr>),
      example_store\<lparr>tasks := (tasks example_store)(T1 \<mapsto> example_task\<lparr>t_title := ''Write the docs''\<rparr>)\<rparr>) \<and>
   (\<exists>t'. tasks (example_store\<lparr>tasks := (tasks example_store)(T1 \<mapsto> example_task\<lparr>t_title := ''Write the docs''\<rparr>)\<rparr>) T1 = Some t' \<and>
         t_project t' = P1 \<and> t_createdBy t' = U2)"
  using updateTask_frame [of example_store T1 example_task refusing 5 owner_U1 T1
          "[(''title'', JStr ''Write the docs''), (''project'', JStr U9), (''createdBy'', JStr U1)]"
          "Inr (example_task\<lparr>t_title := ''Write the docs''\<rparr>)"
          "example_store\<lparr>tasks := (tasks example_store)(T1 \<mapsto> example_task\<lparr>t_title := ''Write the docs''\<rparr>)\<rparr>"]
  by (simp add: updateTask_def Task_findByIdAndUpdate_def set_task_path_def plain_key_def
        example_defs schema_defs)

text \<open>
  C9. \<open>isOverdue\<close> holds exactly when the task has a due date, the current time is
  after it, and the status is not \<open>done\<close>; so it is false for a task that is done
  and for a task without a due date.
\<close>

theorem isOverdue_iff:
  "(isOverdue now t \<longleftrightarrow>
      (\<exists>due. t_dueDate t = Some due \<and> due < now \<and> t_status t \<noteq> ''done'')) \<and>
   (t_status t = ''done'' \<longrightarrow> \<not> isOverdue now t) \<and>
   (t_dueDate t = None \<longrightarrow> \<not> isOverdue now t)"
  by (simp add: isOverdue_def split: option.split)

theorem isOverdue_iff_witness:
  "isOverdue 101 example_task \<and>
   \<not> isOverdue 100 example_task \<and>
   t_status (example_task\<lparr>t_status := ''done''\<rparr>) = ''done'' \<and>
   \<not> isOverdue 101 (example_task\<lparr>t_status := ''done''\<rparr>) \<and>
   t_dueDate (example_task\<lparr>t_dueDate := None\<rparr>) = None \<and>
   \<not> isOverdue 101 (example_task\<lparr>t_dueDate := None\<rparr>)"
  using isOverdue_iff [of 101 example_task] isOverdue_iff [of 100 example_task]
    isOverdue_iff [of 101 "example_task\<lparr>t_status := ''done''\<rparr>"]
    isOverdue_iff [of 101 "example_task\<lparr>t_dueDate := None\<rparr>"]
  by (simp add: example_defs)

text \<open>
  C10. An \<open>updateTaskStatus\<close> request whose status is none of \<open>todo\<close>,
  \<open>inprogress\<close>, \<open>review\<close>, \<open>done\<close> fails with 400 and leaves the store, whatever
  the URL segment for the task is: the task is not looked up.
\<close>

theorem updateTaskStatus_invalid_status:
  assumes "map_of body ''status'' \<notin>
             {Some (JStr ''todo''), Some (JStr ''inprogress''), Some (JStr ''review''),
              Some (JStr ''done'')}"
  shows "updateTaskStatus s user raw body = (Inl (ValidationFailure ''Invalid status''), s) \<and>
         http_status (ValidationFailure ''Invalid status'') = 400"
proof -
  have "includes_str [''todo'', ''inprogress'', ''review'', ''done''] (map_of body ''status'') = None"
    using assms
    by (cases "([''todo'', ''inprogress'', ''review'', ''done''], map_of body ''status'')"
          rule: includes_str.cases) auto
  then show ?thesis by (simp add: updateTaskStatus_def)
qed

theorem updateTaskStatus_invalid_status_witness:
  "map_of [(''status'', JStr ''blocked'')] ''status'' \<notin>
     {Some (JStr ''todo''), Some (JStr ''inprogress''), Some (JStr ''review''), Some (JStr ''done'')} \<and>
   tasks example_store T2 = None \<and>
   updateTaskStatus example_store member_U2 T2 [(''status'', JStr ''blocked'')] =
     (Inl (ValidationFailure ''Invalid status''), example_store) \<and>
   updateTaskStatus example_store member_U2 T1 [(''status'', JStr ''blocked'')] =
     (Inl (ValidationFailure ''Invalid status''), example_store)"
  using updateTaskStatus_invalid_status [of "[(''status'', JStr ''blocked'')]" example_store member_U2 T2]
    updateTaskStatus_invalid_status [of "[(''status'', JStr ''blocked'')]" example_store member_U2 T1]
  by (simp add: example_defs)

end
